theory Spec2Isabelle
  imports Complex_Main
begin

section \<open>Data model\<close>

text \<open>
  The module \<^verbatim>\<open>pyvista/core/filters/composite.py\<close> is a delegation layer: its four
  functions drive handles of the geometry engine and call the single-dataset filter
  class. Datasets are opaque to it; the model keeps what the claims speak about, the
  point coordinates and the cell connectivity. Coordinates, tolerances and factors are
  floats in the program and real numbers here.
\<close>

type_synonym point = "real \<times> real \<times> real"

record dataset =
  points :: "point list"
  cells :: "nat list list"

definition n_points :: "dataset \<Rightarrow> nat" where
  "n_points d = length (points d)"

definition n_cells :: "dataset \<Rightarrow> nat" where
  "n_cells d = length (cells d)"

definition empty_dataset :: dataset where
  "empty_dataset = \<lparr>points = [], cells = []\<rparr>"

text \<open>
  Every dataset is an object with an identity. The object store is the list of the
  datasets allocated so far; a reference is an index into it, and a new object is
  allocated at the end. A Python reference always points to a live object: this is
  \<open>wf_composite\<close> below.
\<close>

type_synonym addr = nat
type_synonym heap = "dataset list"

text \<open>
  A composite is an ordered collection of blocks; a block is a leaf dataset or a nested
  composite (the \<^verbatim>\<open>isinstance(block, vtkMultiBlockDataSet)\<close> test of the source is the
  case distinction on this type).
\<close>

datatype block = Leaf addr | Nested "block list"

type_synonym composite = "block list"

fun leaf_addrs :: "block \<Rightarrow> addr list" where
  "leaf_addrs (Leaf a) = [a]"
| "leaf_addrs (Nested bs) = concat (map leaf_addrs bs)"

definition composite_leaves :: "composite \<Rightarrow> addr list" where
  "composite_leaves c = concat (map leaf_addrs c)"

definition wf_composite :: "heap \<Rightarrow> composite \<Rightarrow> bool" where
  "wf_composite h c = list_all (\<lambda>a. a < length h) (composite_leaves c)"

text \<open>What a call returns: the object its result reference points to.\<close>

definition result :: "addr \<times> heap \<Rightarrow> dataset" where
  "result rh = snd rh ! fst rh"

text \<open>
  \<^verbatim>\<open>wrap\<close> turns the engine's output into a new object of the library; the model
  allocates it.
\<close>

definition wrap :: "heap \<Rightarrow> dataset \<Rightarrow> addr \<times> heap" where
  "wrap h d = (length h, h @ [d])"

section \<open>The geometry engine\<close>

subsection \<open>Appending datasets\<close>

text \<open>
  Modelled from the spec: the engine's append filter (\<^verbatim>\<open>vtkAppendFilter\<close>, an external
  library, is not part of the source). Its inputs are accumulated into a single mesh:
  the points are concatenated in input order and the cells follow, their point indices
  shifted. With point merging on, points within the tolerance (Euclidean distance,
  compared squared) of a point already kept are unified with it, the first one winning;
  a negative tolerance merges nothing. A new handle has merging off and tolerance 0.
\<close>

definition append_dataset :: "dataset \<Rightarrow> dataset \<Rightarrow> dataset" where
  "append_dataset acc d =
     \<lparr>points = points acc @ points d,
      cells = cells acc @ map (map (\<lambda>i. i + length (points acc))) (cells d)\<rparr>"

definition append_all :: "dataset list \<Rightarrow> dataset" where
  "append_all ds = foldl append_dataset empty_dataset ds"

definition within_tolerance :: "real \<Rightarrow> point \<Rightarrow> point \<Rightarrow> bool" where
  "within_tolerance tol p q =
     (case p of (x1, y1, z1) \<Rightarrow> case q of (x2, y2, z2) \<Rightarrow>
        0 \<le> tol \<and> (x1 - x2) * (x1 - x2) + (y1 - y2) * (y1 - y2) + (z1 - z2) * (z1 - z2) \<le> tol * tol)"

fun find_coincident :: "real \<Rightarrow> point \<Rightarrow> point list \<Rightarrow> nat option" where
  "find_coincident tol p [] = None"
| "find_coincident tol p (q # qs) =
     (if within_tolerance tol q p then Some 0
      else map_option Suc (find_coincident tol p qs))"

fun insert_unique_points :: "real \<Rightarrow> point list \<Rightarrow> point list \<Rightarrow> nat list \<Rightarrow> point list \<times> nat list" where
  "insert_unique_points tol [] kept ids = (kept, ids)"
| "insert_unique_points tol (p # ps) kept ids =
     (case find_coincident tol p kept of
        Some i \<Rightarrow> insert_unique_points tol ps kept (ids @ [i])
      | None \<Rightarrow> insert_unique_points tol ps (kept @ [p]) (ids @ [length kept]))"

definition merge_coincident_points :: "real \<Rightarrow> dataset \<Rightarrow> dataset" where
  "merge_coincident_points tol d =
     (case insert_unique_points tol (points d) [] [] of
        (kept, ids) \<Rightarrow>
          \<lparr>points = kept,
           cells = map (map (\<lambda>i. if i < length ids then ids ! i else i)) (cells d)\<rparr>)"

definition append_execute :: "bool \<Rightarrow> real \<Rightarrow> dataset list \<Rightarrow> dataset" where
  "append_execute merge tol ds =
     (if merge then merge_coincident_points tol (append_all ds) else append_all ds)"

record vtkAppendFilter =
  Inputs :: "addr list"
  MergePoints :: bool
  Tolerance :: real
  Output :: dataset

definition vtkAppendFilter_new :: vtkAppendFilter where
  "vtkAppendFilter_new =
     \<lparr>Inputs = [], MergePoints = False, Tolerance = 0, Output = empty_dataset\<rparr>"

definition AddInputData :: "vtkAppendFilter \<Rightarrow> addr \<Rightarrow> vtkAppendFilter" where
  "AddInputData alg a = alg\<lparr>Inputs := Inputs alg @ [a]\<rparr>"

definition SetMergePoints :: "vtkAppendFilter \<Rightarrow> bool \<Rightarrow> vtkAppendFilter" where
  "SetMergePoints alg m = alg\<lparr>MergePoints := m\<rparr>"

definition Update :: "heap \<Rightarrow> vtkAppendFilter \<Rightarrow> vtkAppendFilter" where
  "Update h alg =
     alg\<lparr>Output := append_execute (MergePoints alg) (Tolerance alg) (map ((!) h) (Inputs alg))\<rparr>"

text \<open>Output port 0 is the only port of the filter.\<close>

definition GetOutputDataObject :: "vtkAppendFilter \<Rightarrow> dataset" where
  "GetOutputDataObject alg = Output alg"

subsection \<open>Extracting composite geometry\<close>

text \<open>
  Modelled from the spec: the engine's composite geometry filter
  (\<^verbatim>\<open>vtkCompositeDataGeometryFilter\<close>, external). It traverses the composite depth-first,
  extracts the surface of every leaf and appends the surfaces into one dataset, merging
  no points. The surface extraction of a single leaf is the engine's own algorithm and
  stays a parameter, \<open>surface\<close>.
\<close>

record vtkCompositeDataGeometryFilter =
  InputData :: composite
  GeometryOutput :: dataset

definition vtkCompositeDataGeometryFilter_new :: vtkCompositeDataGeometryFilter where
  "vtkCompositeDataGeometryFilter_new = \<lparr>InputData = [], GeometryOutput = empty_dataset\<rparr>"

definition SetInputData :: "vtkCompositeDataGeometryFilter \<Rightarrow> composite \<Rightarrow> vtkCompositeDataGeometryFilter" where
  "SetInputData gf c = gf\<lparr>InputData := c\<rparr>"

definition GeometryUpdate :: "(dataset \<Rightarrow> dataset) \<Rightarrow> heap \<Rightarrow> vtkCompositeDataGeometryFilter \<Rightarrow> vtkCompositeDataGeometryFilter" where
  "GeometryUpdate surface h gf =
     gf\<lparr>GeometryOutput := append_all (map (\<lambda>a. surface (h ! a)) (composite_leaves (InputData gf)))\<rparr>"

definition GetGeometryOutput :: "vtkCompositeDataGeometryFilter \<Rightarrow> dataset" where
  "GetGeometryOutput gf = GeometryOutput gf"

section \<open>The composite filters\<close>

subsection \<open>extract_geometry\<close>

definition extract_geometry :: "(dataset \<Rightarrow> dataset) \<Rightarrow> heap \<Rightarrow> composite \<Rightarrow> addr \<times> heap" where
  "extract_geometry surface h composite =
     (let gf = vtkCompositeDataGeometryFilter_new;
          gf = SetInputData gf composite;
          gf = GeometryUpdate surface h gf
      in wrap h (GetGeometryOutput gf))"

subsection \<open>combine\<close>

text \<open>
  The loop over the blocks is \<open>combine_blocks\<close>: it threads the handle and the object
  store. A nested composite is combined first, by a call that passes \<open>merge_points\<close>
  and leaves the tolerance at its default \<open>0.0\<close>, and the new mesh is added in its
  place. The source never hands \<open>tolerance\<close> to the handle.
\<close>

fun combine :: "heap \<Rightarrow> composite \<Rightarrow> bool \<Rightarrow> real \<Rightarrow> addr \<times> heap"
and combine_blocks :: "heap \<Rightarrow> vtkAppendFilter \<Rightarrow> block list \<Rightarrow> bool \<Rightarrow> vtkAppendFilter \<times> heap"
where
  "combine h composite merge_points tolerance =
     (let alg = vtkAppendFilter_new;
          (alg, h) = combine_blocks h alg composite merge_points;
          alg = SetMergePoints alg merge_points;
          alg = Update h alg
      in wrap h (GetOutputDataObject alg))"
| "combine_blocks h alg [] merge_points = (alg, h)"
| "combine_blocks h alg (Leaf a # rest) merge_points =
     combine_blocks h (AddInputData alg a) rest merge_points"
| "combine_blocks h alg (Nested c # rest) merge_points =
     (let (block, h) = combine h c merge_points 0
      in combine_blocks h (AddInputData alg block) rest merge_points)"

text \<open>
  What the append handle receives for a block, read off the loop of \<open>combine\<close>: a leaf
  itself; for a nested composite the mesh returned by the recursive call, which is made
  with \<open>merge_points\<close> and the default tolerance.
\<close>

fun block_input :: "heap \<Rightarrow> bool \<Rightarrow> block \<Rightarrow> dataset" where
  "block_input h merge_points (Leaf a) = h ! a"
| "block_input h merge_points (Nested c) = result (combine h c merge_points 0)"

text \<open>The mesh a block stands for: a leaf itself, a nested composite appended.\<close>

fun block_mesh :: "heap \<Rightarrow> bool \<Rightarrow> block \<Rightarrow> dataset" where
  "block_mesh h m (Leaf a) = h ! a"
| "block_mesh h m (Nested bs) = append_execute m 0 (map (block_mesh h m) bs)"

subsection \<open>The aliased operations\<close>

text \<open>
  Thirteen attributes of the class are bound to the functions of the single-dataset
  filter class. That class is not part of the source: it is a parameter, a record of
  functions from an input and an argument list to a result.
\<close>

record ('o, 'a, 'r) DataSetFilters =
  clip :: "'o \<Rightarrow> 'a \<Rightarrow> 'r"
  clip_box :: "'o \<Rightarrow> 'a \<Rightarrow> 'r"
  slice :: "'o \<Rightarrow> 'a \<Rightarrow> 'r"
  slice_orthogonal :: "'o \<Rightarrow> 'a \<Rightarrow> 'r"
  slice_along_axis :: "'o \<Rightarrow> 'a \<Rightarrow> 'r"
  slice_along_line :: "'o \<Rightarrow> 'a \<Rightarrow> 'r"
  extract_all_edges :: "'o \<Rightarrow> 'a \<Rightarrow> 'r"
  elevation :: "'o \<Rightarrow> 'a \<Rightarrow> 'r"
  compute_cell_sizes :: "'o \<Rightarrow> 'a \<Rightarrow> 'r"
  cell_centers :: "'o \<Rightarrow> 'a \<Rightarrow> 'r"
  cell_data_to_point_data :: "'o \<Rightarrow> 'a \<Rightarrow> 'r"
  point_data_to_cell_data :: "'o \<Rightarrow> 'a \<Rightarrow> 'r"
  triangulate :: "'o \<Rightarrow> 'a \<Rightarrow> 'r"

record ('o, 'a, 'r) CompositeFilters =
  clip :: "'o \<Rightarrow> 'a \<Rightarrow> 'r"
  clip_box :: "'o \<Rightarrow> 'a \<Rightarrow> 'r"
  slice :: "'o \<Rightarrow> 'a \<Rightarrow> 'r"
  slice_orthogonal :: "'o \<Rightarrow> 'a \<Rightarrow> 'r"
  slice_along_axis :: "'o \<Rightarrow> 'a \<Rightarrow> 'r"
  slice_along_line :: "'o \<Rightarrow> 'a \<Rightarrow> 'r"
  extract_all_edges :: "'o \<Rightarrow> 'a \<Rightarrow> 'r"
  elevation :: "'o \<Rightarrow> 'a \<Rightarrow> 'r"
  compute_cell_sizes :: "'o \<Rightarrow> 'a \<Rightarrow> 'r"
  cell_centers :: "'o \<Rightarrow> 'a \<Rightarrow> 'r"
  cell_data_to_point_data :: "'o \<Rightarrow> 'a \<Rightarrow> 'r"
  point_data_to_cell_data :: "'o \<Rightarrow> 'a \<Rightarrow> 'r"
  triangulate :: "'o \<Rightarrow> 'a \<Rightarrow> 'r"

definition CompositeFilters_aliases :: "('o, 'a, 'r) DataSetFilters \<Rightarrow> ('o, 'a, 'r) CompositeFilters" where
  "CompositeFilters_aliases dsf =
     \<lparr>clip = DataSetFilters.clip dsf,
      clip_box = DataSetFilters.clip_box dsf,
      slice = DataSetFilters.slice dsf,
      slice_orthogonal = DataSetFilters.slice_orthogonal dsf,
      slice_along_axis = DataSetFilters.slice_along_axis dsf,
      slice_along_line = DataSetFilters.slice_along_line dsf,
      extract_all_edges = DataSetFilters.extract_all_edges dsf,
      elevation = DataSetFilters.elevation dsf,
      compute_cell_sizes = DataSetFilters.compute_cell_sizes dsf,
      cell_centers = DataSetFilters.cell_centers dsf,
      cell_data_to_point_data = DataSetFilters.cell_data_to_point_data dsf,
      point_data_to_cell_data = DataSetFilters.point_data_to_cell_data dsf,
      triangulate = DataSetFilters.triangulate dsf\<rparr>"

subsection \<open>Bounds and the box primitive\<close>

text \<open>
  Modelled from the spec: the bounds of a composite (\<^verbatim>\<open>composite.bounds\<close>, a property of
  the composite class, which is not part of the source) are the minimum and maximum of
  every coordinate over the points of all leaves, recursively, in the order
  \<open>(xmin, xmax, ymin, ymax, zmin, zmax)\<close>. The spec does not say what the bounds of an
  input without points are; the model gives the inverted interval \<open>(1, -1)\<close> on each
  axis, and the theorems about bounds assume a point.
\<close>

type_synonym bounds = "real \<times> real \<times> real \<times> real \<times> real \<times> real"

definition axis_range :: "real list \<Rightarrow> real \<times> real" where
  "axis_range cs = (if cs = [] then (1, - 1) else (Min (set cs), Max (set cs)))"

definition points_bounds :: "point list \<Rightarrow> bounds" where
  "points_bounds ps =
     (case axis_range (map fst ps) of (x0, x1) \<Rightarrow>
      case axis_range (map (\<lambda>p. fst (snd p)) ps) of (y0, y1) \<Rightarrow>
      case axis_range (map (\<lambda>p. snd (snd p)) ps) of (z0, z1) \<Rightarrow>
        (x0, x1, y0, y1, z0, z1))"

definition dataset_bounds :: "dataset \<Rightarrow> bounds" where
  "dataset_bounds d = points_bounds (points d)"

definition composite_points :: "heap \<Rightarrow> composite \<Rightarrow> point list" where
  "composite_points h c = concat (map (\<lambda>a. points (h ! a)) (composite_leaves c))"

definition composite_bounds :: "heap \<Rightarrow> composite \<Rightarrow> bounds" where
  "composite_bounds h c = points_bounds (composite_points h c)"

text \<open>
  Modelled from the spec: the box primitive (\<^verbatim>\<open>pyvista.Box\<close>, not part of the source)
  builds the canonical box of given bounds: its eight corners and its six quadrilateral
  faces.
\<close>

definition box_corners :: "bounds \<Rightarrow> point list" where
  "box_corners b =
     (case b of (x0, x1, y0, y1, z0, z1) \<Rightarrow>
        [(x0, y0, z0), (x1, y0, z0), (x0, y1, z0), (x1, y1, z0),
         (x0, y0, z1), (x1, y0, z1), (x0, y1, z1), (x1, y1, z1)])"

definition box_faces :: "nat list list" where
  "box_faces = [[0, 1, 3, 2], [4, 5, 7, 6], [0, 1, 5, 4], [2, 3, 7, 6], [0, 2, 6, 4], [1, 3, 7, 5]]"

definition box_edges :: "nat list list" where
  "box_edges = [[0, 1], [2, 3], [4, 5], [6, 7], [0, 2], [1, 3], [4, 6], [5, 7],
                [0, 4], [1, 5], [2, 6], [3, 7]]"

definition box_dataset :: "bounds \<Rightarrow> dataset" where
  "box_dataset b = \<lparr>points = box_corners b, cells = box_faces\<rparr>"

definition Box :: "heap \<Rightarrow> bounds \<Rightarrow> addr \<times> heap" where
  "Box h b = wrap h (box_dataset b)"

subsection \<open>The single-dataset outline operations\<close>

text \<open>
  The outline operations of the single-dataset filter class take a dataset or a
  composite. They are parameters of \<open>outline\<close> and \<open>outline_corners\<close> below.
\<close>

datatype data_object = DataSet addr | MultiBlock composite

type_synonym outline_filter = "heap \<Rightarrow> data_object \<Rightarrow> bool \<Rightarrow> bool \<Rightarrow> addr \<times> heap"
type_synonym outline_corners_filter = "heap \<Rightarrow> data_object \<Rightarrow> real \<Rightarrow> bool \<Rightarrow> addr \<times> heap"

text \<open>
  Modelled from the spec: the outline of a dataset is the wireframe of the box of its
  bounds, the twelve edges and, with \<open>generate_faces\<close>, the six faces too. The corner
  outline has, at each of the eight corners, three segments along the axes whose length
  is \<open>factor\<close> times the length of the corresponding edge of the box. On a composite the
  operations make the outline of every nested dataset (the docstring of the source) and
  append them. The progress bar is display only.
\<close>

definition outline_of_bounds :: "bool \<Rightarrow> bounds \<Rightarrow> dataset" where
  "outline_of_bounds generate_faces b =
     \<lparr>points = box_corners b,
      cells = (if generate_faces then box_edges @ box_faces else box_edges)\<rparr>"

definition corner_marks :: "real \<Rightarrow> real \<Rightarrow> real \<Rightarrow> (real \<times> real) list" where
  "corner_marks factor lo hi = [(lo, factor * (hi - lo)), (hi, - (factor * (hi - lo)))]"

definition corner_points :: "real \<Rightarrow> bounds \<Rightarrow> point list" where
  "corner_points factor b =
     (case b of (x0, x1, y0, y1, z0, z1) \<Rightarrow>
        concat (map (\<lambda>(z, dz). concat (map (\<lambda>(y, dy). concat (map (\<lambda>(x, dx).
            [(x, y, z), (x + dx, y, z), (x, y + dy, z), (x, y, z + dz)])
          (corner_marks factor x0 x1))) (corner_marks factor y0 y1))) (corner_marks factor z0 z1)))"

definition corner_segments :: "nat list list" where
  "corner_segments = concat (map (\<lambda>k. [[4 * k, 4 * k + 1], [4 * k, 4 * k + 2], [4 * k, 4 * k + 3]]) [0..<8])"

definition corners_of_bounds :: "real \<Rightarrow> bounds \<Rightarrow> dataset" where
  "corners_of_bounds factor b = \<lparr>points = corner_points factor b, cells = corner_segments\<rparr>"

definition DataSetFilters_outline :: outline_filter where
  "DataSetFilters_outline h obj generate_faces progress_bar =
     wrap h (case obj of
        DataSet a \<Rightarrow> outline_of_bounds generate_faces (dataset_bounds (h ! a))
      | MultiBlock c \<Rightarrow>
          append_all (map (\<lambda>a. outline_of_bounds generate_faces (dataset_bounds (h ! a)))
            (composite_leaves c)))"

definition DataSetFilters_outline_corners :: outline_corners_filter where
  "DataSetFilters_outline_corners h obj factor progress_bar =
     wrap h (case obj of
        DataSet a \<Rightarrow> corners_of_bounds factor (dataset_bounds (h ! a))
      | MultiBlock c \<Rightarrow>
          append_all (map (\<lambda>a. corners_of_bounds factor (dataset_bounds (h ! a)))
            (composite_leaves c)))"

subsection \<open>outline and outline_corners\<close>

definition outline :: "outline_filter \<Rightarrow> heap \<Rightarrow> composite \<Rightarrow> bool \<Rightarrow> bool \<Rightarrow> bool \<Rightarrow> addr \<times> heap" where
  "outline ds_outline h composite generate_faces nested progress_bar =
     (if nested then ds_outline h (MultiBlock composite) generate_faces progress_bar
      else (let (box, h) = Box h (composite_bounds h composite)
            in ds_outline h (DataSet box) generate_faces progress_bar))"

definition outline_corners :: "outline_corners_filter \<Rightarrow> heap \<Rightarrow> composite \<Rightarrow> real \<Rightarrow> bool \<Rightarrow> bool \<Rightarrow> addr \<times> heap" where
  "outline_corners ds_outline_corners h composite factor nested progress_bar =
     (if nested then ds_outline_corners h (MultiBlock composite) factor progress_bar
      else (let (box, h) = Box h (composite_bounds h composite)
            in ds_outline_corners h (DataSet box) factor progress_bar))"

section \<open>Example objects\<close>

text \<open>
  Small datasets and composites on which the theorems below are instantiated: single
  vertices, line segments, a store of two segments, a nested and a flat composite over
  it.
\<close>

definition vertex_at :: "point \<Rightarrow> dataset" where
  "vertex_at p = \<lparr>points = [p], cells = [[0]]\<rparr>"

definition segment :: "point \<Rightarrow> point \<Rightarrow> dataset" where
  "segment p q = \<lparr>points = [p, q], cells = [[0, 1]]\<rparr>"

definition example_heap :: heap where
  "example_heap = [segment (0, 0, 0) (1, 0, 0), segment (1, 0, 0) (2, 1, 3)]"

definition example_composite :: composite where
  "example_composite = [Leaf 0, Nested [Leaf 1]]"

definition example_flat :: composite where
  "example_flat = [Leaf 1, Leaf 0]"

text \<open>
  Three vertices on the x axis, at 1.5, 0.75 and 0, and an empty dataset, for the inputs
  on which the source and the spec part.
\<close>

definition tolerance_heap :: heap where
  "tolerance_heap = [vertex_at (3 / 2, 0, 0), vertex_at (3 / 4, 0, 0), vertex_at (0, 0, 0)]"

definition tolerance_composite :: composite where
  "tolerance_composite = [Leaf 0, Nested [Leaf 1, Leaf 2]]"

text \<open>
  Modelled from the spec: the cube primitive of the docstring example of \<open>combine\<close>
  (\<^verbatim>\<open>pyvista.Cube\<close>, not part of the source) has edges of length 1 around its centre
  and emits 24 points, four for each of its six faces.
\<close>

definition cube_points :: "point \<Rightarrow> point list" where
  "cube_points c =
     (case c of (cx, cy, cz) \<Rightarrow>
        (let x0 = cx - 1 / 2; x1 = cx + 1 / 2; y0 = cy - 1 / 2; y1 = cy + 1 / 2;
             z0 = cz - 1 / 2; z1 = cz + 1 / 2
         in [(x0, y0, z0), (x0, y0, z1), (x0, y1, z1), (x0, y1, z0),
             (x1, y0, z0), (x1, y1, z0), (x1, y1, z1), (x1, y0, z1),
             (x0, y0, z0), (x1, y0, z0), (x1, y0, z1), (x0, y0, z1),
             (x0, y1, z0), (x0, y1, z1), (x1, y1, z1), (x1, y1, z0),
             (x0, y0, z0), (x0, y1, z0), (x1, y1, z0), (x1, y0, z0),
             (x0, y0, z1), (x1, y0, z1), (x1, y1, z1), (x0, y1, z1)]))"

definition Cube :: "point \<Rightarrow> dataset" where
  "Cube c =
     \<lparr>points = cube_points c,
      cells = map (\<lambda>k. [4 * k, 4 * k + 1, 4 * k + 2, 4 * k + 3]) [0..<6]\<rparr>"

text \<open>
  The equation of \<open>combine\<close> applies to every call; it is unfolded on demand only.
\<close>

declare combine.simps [simp del]

section \<open>The append filter\<close>

lemma n_points_append_dataset:
  "n_points (append_dataset acc d) = n_points acc + n_points d"
  by (simp add: n_points_def append_dataset_def)

lemma n_points_foldl_append:
  "n_points (foldl append_dataset acc ds) = n_points acc + sum_list (map n_points ds)"
  by (induction ds arbitrary: acc) (simp_all add: n_points_append_dataset)

lemma n_points_append_all:
  "n_points (append_all ds) = sum_list (map n_points ds)"
  by (simp add: append_all_def n_points_foldl_append) (simp add: n_points_def empty_dataset_def)

lemma insert_unique_points_length:
  "length (fst (insert_unique_points tol ps kept ids)) \<le> length kept + length ps"
proof (induction ps arbitrary: kept ids)
  case Nil
  then show ?case by simp
next
  case (Cons p ps)
  show ?case
  proof (cases "find_coincident tol p kept")
    case None
    with Cons.IH [of "kept @ [p]" "ids @ [length kept]"] show ?thesis by simp
  next
    case (Some i)
    with Cons.IH [of kept "ids @ [i]"] show ?thesis by simp
  qed
qed

lemma n_points_merge_coincident_points:
  "n_points (merge_coincident_points tol d) \<le> n_points d"
  using insert_unique_points_length [of tol "points d" "[]" "[]"]
  by (auto simp add: merge_coincident_points_def n_points_def split: prod.splits)

lemma n_points_append_execute_le:
  "n_points (append_execute m tol ds) \<le> sum_list (map n_points ds)"
  using n_points_merge_coincident_points [of tol "append_all ds"]
  by (simp add: append_execute_def n_points_append_all)

lemma n_points_append_execute_False:
  "n_points (append_execute False tol ds) = sum_list (map n_points ds)"
  by (simp add: append_execute_def n_points_append_all)

lemma sum_list_concat_map:
  "sum_list (concat (map f xs)) = sum_list (map (\<lambda>x. sum_list (f x)) xs)"
  by (induction xs) simp_all

lemma sum_list_map_le:
  "(\<And>x. x \<in> set xs \<Longrightarrow> f x \<le> (g x :: nat)) \<Longrightarrow> sum_list (map f xs) \<le> sum_list (map g xs)"
  by (induction xs) (simp_all add: add_mono)

section \<open>References and the object store\<close>

lemma wf_composite_Leaf:
  "wf_composite h (Leaf a # rest) \<longleftrightarrow> a < length h \<and> wf_composite h rest"
  by (simp add: wf_composite_def composite_leaves_def)

lemma wf_composite_Nested:
  "wf_composite h (Nested c # rest) \<longleftrightarrow> wf_composite h c \<and> wf_composite h rest"
  by (simp add: wf_composite_def composite_leaves_def)

lemma wf_composite_extend:
  "wf_composite h c \<Longrightarrow> wf_composite (h @ news) c"
  by (auto simp add: wf_composite_def list_all_iff)

lemma wf_composite_block:
  "wf_composite h c \<Longrightarrow> b \<in> set c \<Longrightarrow> wf_composite h [b]"
  by (auto simp add: wf_composite_def composite_leaves_def list_all_iff)

lemma wf_example: "wf_composite example_heap example_composite"
  by (simp add: wf_composite_def composite_leaves_def example_heap_def example_composite_def)

lemma block_mesh_extend:
  "wf_composite h [b] \<Longrightarrow> block_mesh (h @ news) m b = block_mesh h m b"
proof (induction b)
  case (Leaf a)
  then show ?case by (simp add: wf_composite_Leaf nth_append)
next
  case (Nested bs)
  have "map (block_mesh (h @ news) m) bs = map (block_mesh h m) bs"
  proof (rule map_cong [OF refl])
    fix b assume b: "b \<in> set bs"
    from Nested.prems have "wf_composite h bs" by (simp add: wf_composite_Nested)
    then have "wf_composite h [b]" using b by (rule wf_composite_block)
    with b show "block_mesh (h @ news) m b = block_mesh h m b" by (rule Nested.IH)
  qed
  then show ?case by (simp only: block_mesh.simps)
qed

lemma map_block_mesh_extend:
  "wf_composite h c \<Longrightarrow> map (block_mesh (h @ news) m) c = map (block_mesh h m) c"
  by (rule map_cong [OF refl]) (auto intro: block_mesh_extend wf_composite_block)

section \<open>What combine returns\<close>

text \<open>
  On a composite whose references are live, the result is the append of the meshes of
  the blocks, and the handle has received one input per block.
\<close>

lemma combine_run:
  "wf_composite h c \<Longrightarrow>
     \<exists>news. combine h c m t
       = (length h + length news, h @ news @ [append_execute m 0 (map (block_mesh h m) c)])"
  and combine_blocks_run:
  "wf_composite h bs \<Longrightarrow>
     \<exists>news addrs. combine_blocks h alg bs m = (alg\<lparr>Inputs := Inputs alg @ addrs\<rparr>, h @ news)
        \<and> map ((!) (h @ news)) addrs = map (block_mesh h m) bs"
proof (induction h c m t and h alg bs m rule: combine_combine_blocks.induct)
  case (1 h composite merge_points tolerance)
  from "1.IH" [OF refl "1.prems"] obtain news addrs where
    run: "combine_blocks h vtkAppendFilter_new composite merge_points
           = (vtkAppendFilter_new\<lparr>Inputs := Inputs vtkAppendFilter_new @ addrs\<rparr>, h @ news)"
    and ins: "map ((!) (h @ news)) addrs = map (block_mesh h merge_points) composite"
    by blast
  have "combine h composite merge_points tolerance
       = (length h + length news,
          h @ news @ [append_execute merge_points 0 (map (block_mesh h merge_points) composite)])"
    using run ins
    by (simp add: combine.simps wrap_def GetOutputDataObject_def Update_def SetMergePoints_def
        vtkAppendFilter_new_def)
  then show ?case by blast
next
  case (2 h alg merge_points)
  have "combine_blocks h alg [] merge_points = (alg\<lparr>Inputs := Inputs alg @ []\<rparr>, h @ [])
        \<and> map ((!) (h @ [])) [] = map (block_mesh h merge_points) []"
    by simp
  then show ?case by blast
next
  case (3 h alg a rest merge_points)
  from "3.prems" have a: "a < length h" and rest: "wf_composite h rest"
    by (simp_all add: wf_composite_Leaf)
  from "3.IH" [OF rest] obtain news addrs where
    run: "combine_blocks h (AddInputData alg a) rest merge_points
           = (AddInputData alg a\<lparr>Inputs := Inputs (AddInputData alg a) @ addrs\<rparr>, h @ news)"
    and ins: "map ((!) (h @ news)) addrs = map (block_mesh h merge_points) rest"
    by blast
  have "combine_blocks h alg (Leaf a # rest) merge_points
          = (alg\<lparr>Inputs := Inputs alg @ (a # addrs)\<rparr>, h @ news)
        \<and> map ((!) (h @ news)) (a # addrs) = map (block_mesh h merge_points) (Leaf a # rest)"
    using run ins a by (simp add: AddInputData_def nth_append)
  then show ?case by blast
next
  case (4 h alg c rest merge_points)
  from "4.prems" have c: "wf_composite h c" and rest: "wf_composite h rest"
    by (simp_all add: wf_composite_Nested)
  from "4.IH"(1) [OF c] obtain news1 where
    run1: "combine h c merge_points 0
           = (length h + length news1,
              h @ news1 @ [append_execute merge_points 0 (map (block_mesh h merge_points) c)])"
    by blast
  let ?d = "append_execute merge_points 0 (map (block_mesh h merge_points) c)"
  let ?b = "length h + length news1"
  let ?h1 = "h @ news1 @ [?d]"
  have rest1: "wf_composite ?h1 rest" using rest by (rule wf_composite_extend)
  from "4.IH"(2) [OF run1 [symmetric] refl rest1] obtain news2 addrs where
    run2: "combine_blocks ?h1 (AddInputData alg ?b) rest merge_points
           = (AddInputData alg ?b\<lparr>Inputs := Inputs (AddInputData alg ?b) @ addrs\<rparr>, ?h1 @ news2)"
    and ins: "map ((!) (?h1 @ news2)) addrs = map (block_mesh ?h1 merge_points) rest"
    by blast
  have ins': "map ((!) (?h1 @ news2)) addrs = map (block_mesh h merge_points) rest"
    using ins map_block_mesh_extend [OF rest, of "news1 @ [?d]" merge_points] by simp
  have nth: "(?h1 @ news2) ! ?b = ?d"
    by (simp add: nth_append)
  have "combine_blocks h alg (Nested c # rest) merge_points
          = (alg\<lparr>Inputs := Inputs alg @ (?b # addrs)\<rparr>, h @ (news1 @ [?d] @ news2))
        \<and> map ((!) (h @ (news1 @ [?d] @ news2))) (?b # addrs)
            = map (block_mesh h merge_points) (Nested c # rest)"
    using run1 run2 ins' nth by (simp add: AddInputData_def)
  then show ?case by blast
qed

lemma result_combine:
  assumes "wf_composite h c"
  shows "result (combine h c m t) = append_execute m 0 (map (block_mesh h m) c)"
proof -
  from combine_run [OF assms, of m t] obtain news where
    "combine h c m t = (length h + length news, h @ news @ [append_execute m 0 (map (block_mesh h m) c)])"
    by blast
  then show ?thesis by (simp add: result_def nth_append)
qed

lemma result_combine_Nested:
  assumes "wf_composite h c"
  shows "result (combine h c m t) = block_mesh h m (Nested c)"
  using result_combine [OF assms] by simp

lemma block_input_mesh:
  assumes "wf_composite h [b]"
  shows "block_input h m b = block_mesh h m b"
proof (cases b)
  case (Leaf a)
  then show ?thesis by simp
next
  case (Nested c)
  with assms have "wf_composite h c" by (simp add: wf_composite_Nested)
  then show ?thesis using Nested by (simp add: result_combine)
qed

lemma n_points_block_mesh_False:
  "n_points (block_mesh h False b) = sum_list (map (\<lambda>a. n_points (h ! a)) (leaf_addrs b))"
proof (induction b)
  case (Leaf a)
  then show ?case by simp
next
  case (Nested bs)
  have eq: "map (\<lambda>b. n_points (block_mesh h False b)) bs
        = map (\<lambda>b. sum_list (map (\<lambda>a. n_points (h ! a)) (leaf_addrs b))) bs"
    by (rule map_cong [OF refl]) (rule Nested.IH)
  have "n_points (block_mesh h False (Nested bs))
        = sum_list (map (\<lambda>b. n_points (block_mesh h False b)) bs)"
    by (simp add: n_points_append_execute_False comp_def)
  also have "\<dots> = sum_list (map (\<lambda>b. sum_list (map (\<lambda>a. n_points (h ! a)) (leaf_addrs b))) bs)"
    by (simp only: eq)
  also have "\<dots> = sum_list (map (\<lambda>a. n_points (h ! a)) (leaf_addrs (Nested bs)))"
    by (simp add: map_concat sum_list_concat_map comp_def)
  finally show ?case .
qed

lemma n_points_block_mesh_le:
  "n_points (block_mesh h True b) \<le> n_points (block_mesh h False b)"
proof (induction b)
  case (Leaf a)
  then show ?case by simp
next
  case (Nested bs)
  have "n_points (append_execute True 0 (map (block_mesh h True) bs))
        \<le> sum_list (map n_points (map (block_mesh h True) bs))"
    by (rule n_points_append_execute_le)
  also have "\<dots> \<le> sum_list (map n_points (map (block_mesh h False) bs))"
    unfolding map_map comp_def by (rule sum_list_map_le) (rule Nested.IH)
  also have "\<dots> = n_points (append_execute False 0 (map (block_mesh h False) bs))"
    by (simp add: n_points_append_execute_False)
  finally show ?case by simp
qed

text \<open>The tolerance argument takes no part in the computation.\<close>

lemma combine_tolerance_irrelevant:
  "combine h c m t = combine h c m t'"
  by (simp add: combine.simps)

section \<open>The documented example\<close>

text \<open>
  The docstring of \<open>combine\<close> combines a cube at the origin and a cube centred at
  \<open>(1, 0, 0)\<close>: 48 points without merging, 12 with it. The model computes both.
\<close>

lemma docstring_unmerged:
  "n_points (result (combine [Cube (0, 0, 0), Cube (1, 0, 0)] [Leaf 0, Leaf 1] False 0)) = 48"
  by (simp add: combine.simps result_def wrap_def GetOutputDataObject_def Update_def
      SetMergePoints_def AddInputData_def vtkAppendFilter_new_def append_execute_def
      append_all_def append_dataset_def empty_dataset_def n_points_def Cube_def cube_points_def
      Let_def)

lemma docstring_merged:
  "n_points (result (combine [Cube (0, 0, 0), Cube (1, 0, 0)] [Leaf 0, Leaf 1] True 0)) = 12"
  by (simp add: combine.simps result_def wrap_def GetOutputDataObject_def Update_def
      SetMergePoints_def AddInputData_def vtkAppendFilter_new_def append_execute_def
      append_all_def append_dataset_def empty_dataset_def n_points_def Cube_def cube_points_def
      merge_coincident_points_def within_tolerance_def Let_def)

lemma example_merged:
  "result (combine example_heap example_composite True 0)
     = \<lparr>points = [(0, 0, 0), (1, 0, 0), (2, 1, 3)], cells = [[0, 1], [1, 2]]\<rparr>"
  by (simp add: combine.simps result_def wrap_def GetOutputDataObject_def Update_def
      SetMergePoints_def AddInputData_def vtkAppendFilter_new_def append_execute_def
      append_all_def append_dataset_def empty_dataset_def merge_coincident_points_def
      within_tolerance_def segment_def example_heap_def example_composite_def nth_append)

lemma example_unmerged:
  "result (combine example_heap example_composite False 0)
     = \<lparr>points = [(0, 0, 0), (1, 0, 0), (1, 0, 0), (2, 1, 3)], cells = [[0, 1], [2, 3]]\<rparr>"
  by (simp add: combine.simps result_def wrap_def GetOutputDataObject_def Update_def
      SetMergePoints_def AddInputData_def vtkAppendFilter_new_def append_execute_def
      append_all_def append_dataset_def empty_dataset_def
      segment_def example_heap_def example_composite_def nth_append)

section \<open>Claims about combine\<close>

text \<open>
  C1. The claim: \<open>combine\<close> with \<open>merge_points\<close> true unifies the points that lie within
  the tolerance of each other, so that the tolerance argument decides the result. The
  code does not do this. Two vertices half a unit apart, combined with merging on and
  tolerance 1, stay two points, since the handle keeps its default tolerance 0; the
  append filter run at tolerance 1 on the same two inputs gives one point.
\<close>

theorem combine_ignores_tolerance:
  "result (combine [vertex_at (0, 0, 0), vertex_at (1 / 2, 0, 0)] [Leaf 0, Leaf 1] True 1)
     = \<lparr>points = [(0, 0, 0), (1 / 2, 0, 0)], cells = [[0], [1]]\<rparr>
   \<and> append_execute True 1 [vertex_at (0, 0, 0), vertex_at (1 / 2, 0, 0)]
     = \<lparr>points = [(0, 0, 0)], cells = [[0], [0]]\<rparr>"
  by (simp add: combine.simps result_def wrap_def GetOutputDataObject_def Update_def
      SetMergePoints_def AddInputData_def vtkAppendFilter_new_def append_execute_def
      append_all_def append_dataset_def empty_dataset_def merge_coincident_points_def
      within_tolerance_def vertex_at_def)

text \<open>
  What the code does: the mesh returned by \<open>combine\<close> is the output of the append filter,
  at the handle's default tolerance, on one input per block in order.
\<close>

lemma combine_appends_block_inputs:
  assumes "wf_composite h c"
  shows "result (combine h c merge_points tolerance)
         = append_execute merge_points (Tolerance vtkAppendFilter_new)
             (map (block_input h merge_points) c)"
proof -
  have "map (block_input h merge_points) c = map (block_mesh h merge_points) c"
    by (rule map_cong [OF refl]) (auto intro: block_input_mesh wf_composite_block [OF assms])
  then show ?thesis
    by (simp only: result_combine [OF assms]) (simp add: vtkAppendFilter_new_def)
qed

text \<open>
  C2. The claim: \<open>combine\<close> combines a nested composite with the same \<open>merge_points\<close> and
  the same \<open>tolerance\<close>, and appends the resulting mesh. The recursive call of the source
  passes \<open>merge_points\<close> and drops the tolerance. On a vertex at 1.5 followed by a nested
  composite of vertices at 0.75 and 0, with merging on and tolerance 1: the recursive call
  returns the nested composite with its two points, where the append filter at tolerance
  1 unifies them; the code returns all three points; with the outer handle at tolerance 1
  the mesh of the recursive call gives two points, and the nested composite combined at
  tolerance 1 gives one.
\<close>

theorem combine_recursion_drops_tolerance:
  "points (block_input tolerance_heap True (Nested [Leaf 1, Leaf 2])) = [(3 / 4, 0, 0), (0, 0, 0)]
   \<and> points (append_execute True 1 [tolerance_heap ! 1, tolerance_heap ! 2]) = [(3 / 4, 0, 0)]
   \<and> points (result (combine tolerance_heap tolerance_composite True 1))
       = [(3 / 2, 0, 0), (3 / 4, 0, 0), (0, 0, 0)]
   \<and> points (append_execute True 1
         [tolerance_heap ! 0, block_input tolerance_heap True (Nested [Leaf 1, Leaf 2])])
       = [(3 / 2, 0, 0), (0, 0, 0)]
   \<and> points (append_execute True 1
         [tolerance_heap ! 0, append_execute True 1 [tolerance_heap ! 1, tolerance_heap ! 2]])
       = [(3 / 2, 0, 0)]"
  by (simp add: combine.simps result_def wrap_def GetOutputDataObject_def Update_def
      SetMergePoints_def AddInputData_def vtkAppendFilter_new_def append_execute_def
      append_all_def append_dataset_def empty_dataset_def merge_coincident_points_def
      within_tolerance_def vertex_at_def tolerance_heap_def tolerance_composite_def nth_append)

text \<open>
  C4. For a composite with live references, the point count of \<open>combine\<close> without point
  merging is the sum of the point counts of all its leaf blocks, at every depth.
\<close>

theorem combine_additive:
  assumes "wf_composite h c"
  shows "n_points (result (combine h c False tolerance))
         = sum_list (map (\<lambda>a. n_points (h ! a)) (composite_leaves c))"
  using n_points_block_mesh_False [of h "Nested c"]
  by (simp add: result_combine_Nested [OF assms] composite_leaves_def del: block_mesh.simps)

theorem combine_additive_witness:
  "wf_composite example_heap example_composite
   \<and> n_points (result (combine example_heap example_composite False 0)) = 4"
  using combine_additive [OF wf_example, of 0] wf_example
  by (simp add: composite_leaves_def example_composite_def example_heap_def segment_def n_points_def)

text \<open>
  C5. For a composite with live references, \<open>combine\<close> with point merging at tolerance 0
  returns at most as many points as \<open>combine\<close> without point merging.
\<close>

theorem merge_never_increases:
  assumes "wf_composite h c"
  shows "n_points (result (combine h c True 0)) \<le> n_points (result (combine h c False 0))"
  using n_points_block_mesh_le [of h "Nested c"]
  by (simp add: result_combine_Nested [OF assms] del: block_mesh.simps)

theorem merge_never_increases_witness:
  "wf_composite example_heap example_composite
   \<and> n_points (result (combine example_heap example_composite True 0))
       \<le> n_points (result (combine example_heap example_composite False 0))
   \<and> n_points (result (combine example_heap example_composite True 0)) = 3
   \<and> n_points (result (combine example_heap example_composite False 0)) = 4"
proof -
  have "n_points (result (combine example_heap example_composite True 0)) = 3"
    and "n_points (result (combine example_heap example_composite False 0)) = 4"
    by (simp_all only: example_merged example_unmerged) (simp_all add: n_points_def)
  with merge_never_increases [OF wf_example] wf_example show ?thesis by blast
qed

section \<open>Bounds of the box and of its outline\<close>







lemma n_points_corners_of_bounds:
  "n_points (corners_of_bounds factor b) = 32"
  by (cases b) (simp add: corners_of_bounds_def corner_points_def corner_marks_def n_points_def)

lemma example_bounds:
  "composite_bounds example_heap example_composite = (0, 2, 0, 1, 0, 3)"
  "composite_bounds example_heap example_flat = (0, 2, 0, 1, 0, 3)"
  by (simp_all add: composite_bounds_def composite_points_def composite_leaves_def points_bounds_def
      axis_range_def example_heap_def example_composite_def example_flat_def segment_def)


section \<open>Claims about outline and outline_corners\<close>





text \<open>
  With \<open>nested\<close> true the corner outlines of the leaves are appended, and the point count
  is again the same for any two factors.
\<close>

lemma outline_corners_count_nested:
  "n_points (result (outline_corners DataSetFilters_outline_corners h c f1 True progress_bar))
     = n_points (result (outline_corners DataSetFilters_outline_corners h c f2 True progress_bar))"
  by (simp add: outline_corners_def wrap_def DataSetFilters_outline_corners_def result_def
      n_points_corners_of_bounds n_points_append_all comp_def)

text \<open>
  C7. The point count of \<open>outline_corners\<close> (\<open>nested\<close> at its default, false) does not
  depend on the factor: for every composite and any two factors, in particular two
  different positive ones, the results have the same number of points, the four points
  of each of the eight corner markers.
\<close>

theorem outline_corners_count:
  "n_points (result (outline_corners DataSetFilters_outline_corners h c f1 False progress_bar))
     = n_points (result (outline_corners DataSetFilters_outline_corners h c f2 False progress_bar))
   \<and> n_points (result (outline_corners DataSetFilters_outline_corners h c f1 False progress_bar)) = 32"
  by (simp add: outline_corners_def Box_def wrap_def DataSetFilters_outline_corners_def result_def
      nth_append n_points_corners_of_bounds)

text \<open>
  C10. With \<open>nested\<close> false the results of \<open>outline\<close> and \<open>outline_corners\<close> depend on the
  composite through its bounds only: two composites of one store with equal bounds give
  equal results, for every \<open>generate_faces\<close> and every \<open>factor\<close>, whatever the
  single-dataset operations are.
\<close>

theorem outline_depends_on_bounds:
  assumes "composite_bounds h c1 = composite_bounds h c2"
  shows "outline ds_outline h c1 generate_faces False progress_bar
           = outline ds_outline h c2 generate_faces False progress_bar
     \<and> outline_corners ds_outline_corners h c1 factor False progress_bar
           = outline_corners ds_outline_corners h c2 factor False progress_bar"
  using assms by (simp add: outline_def outline_corners_def)

theorem outline_depends_on_bounds_witness:
  "composite_bounds example_heap example_composite = composite_bounds example_heap example_flat
   \<and> example_composite \<noteq> example_flat
   \<and> outline DataSetFilters_outline example_heap example_composite True False False
       = outline DataSetFilters_outline example_heap example_flat True False False
   \<and> outline_corners DataSetFilters_outline_corners example_heap example_composite (1 / 5) False False
       = outline_corners DataSetFilters_outline_corners example_heap example_flat (1 / 5) False False"
proof -
  have eq: "composite_bounds example_heap example_composite = composite_bounds example_heap example_flat"
    by (simp add: example_bounds)
  have ne: "example_composite \<noteq> example_flat"
    by (simp add: example_composite_def example_flat_def)
  from outline_depends_on_bounds [OF eq, of DataSetFilters_outline True False
      DataSetFilters_outline_corners "1 / 5"] eq ne
  show ?thesis by blast
qed

section \<open>Delegation\<close>

text \<open>
  C8. Each of the thirteen aliased operations of the composite filters is the operation
  of the same name of the single-dataset filter class: on every input and every
  argument list both give the same result.
\<close>

theorem aliases_are_DataSetFilters:
  "CompositeFilters.clip (CompositeFilters_aliases dsf) x args = DataSetFilters.clip dsf x args
   \<and> CompositeFilters.clip_box (CompositeFilters_aliases dsf) x args = DataSetFilters.clip_box dsf x args
   \<and> CompositeFilters.slice (CompositeFilters_aliases dsf) x args = DataSetFilters.slice dsf x args
   \<and> CompositeFilters.slice_orthogonal (CompositeFilters_aliases dsf) x args = DataSetFilters.slice_orthogonal dsf x args
   \<and> CompositeFilters.slice_along_axis (CompositeFilters_aliases dsf) x args = DataSetFilters.slice_along_axis dsf x args
   \<and> CompositeFilters.slice_along_line (CompositeFilters_aliases dsf) x args = DataSetFilters.slice_along_line dsf x args
   \<and> CompositeFilters.extract_all_edges (CompositeFilters_aliases dsf) x args = DataSetFilters.extract_all_edges dsf x args
   \<and> CompositeFilters.elevation (CompositeFilters_aliases dsf) x args = DataSetFilters.elevation dsf x args
   \<and> CompositeFilters.compute_cell_sizes (CompositeFilters_aliases dsf) x args = DataSetFilters.compute_cell_sizes dsf x args
   \<and> CompositeFilters.cell_centers (CompositeFilters_aliases dsf) x args = DataSetFilters.cell_centers dsf x args
   \<and> CompositeFilters.cell_data_to_point_data (CompositeFilters_aliases dsf) x args = DataSetFilters.cell_data_to_point_data dsf x args
   \<and> CompositeFilters.point_data_to_cell_data (CompositeFilters_aliases dsf) x args = DataSetFilters.point_data_to_cell_data dsf x args
   \<and> CompositeFilters.triangulate (CompositeFilters_aliases dsf) x args = DataSetFilters.triangulate dsf x args"
  by (simp add: CompositeFilters_aliases_def)

text \<open>
  C9. With \<open>nested\<close> true, \<open>outline\<close> is the single-dataset outline operation applied to
  the composite itself with the same \<open>generate_faces\<close>, and \<open>outline_corners\<close> is the
  single-dataset corner operation applied to the composite with the same \<open>factor\<close>,
  whatever these two operations are.
\<close>

theorem nested_outline_delegates:
  "outline ds_outline h composite generate_faces True progress_bar
     = ds_outline h (MultiBlock composite) generate_faces progress_bar
   \<and> outline_corners ds_outline_corners h composite factor True progress_bar
     = ds_outline_corners h (MultiBlock composite) factor progress_bar"
  by (simp add: outline_def outline_corners_def)

end
